theory Spec2Isabelle
  imports Complex_Main
begin

text \<open>
  \<open>AnimationService\<close> (\<open>src/app/animation/animation.service.ts\<close>) moves a camera and
  a vehicle along a closed parametric curve: every animation frame advances a
  progress by a velocity, samples the curve, updates the velocity from the slope, and
  places the camera and the vehicle. This theory embeds the curve, the two update
  functions, the frame loop and the teardown, and proves what they do.
\<close>

section \<open>Numbers and results\<close>

text \<open>
  The service computes with JavaScript numbers. They are modelled as real numbers:
  rounding is not modelled. What a double can be besides a finite number (NaN, an
  infinity) is modelled as a failure: every operation of the source that can turn
  finite operands into a non-finite result (a division by zero, a remainder by zero)
  returns \<open>Inl NotFinite\<close> there, and the computation that uses it stops with that
  value. Dereferencing a collaborator that is still undefined is \<open>Inl TypeError\<close>.
\<close>

datatype error = NotFinite | TypeError

definition bind_r :: "error + 'a \<Rightarrow> ('a \<Rightarrow> error + 'b) \<Rightarrow> error + 'b" where
  "bind_r m f = (case m of Inl e \<Rightarrow> Inl e | Inr a \<Rightarrow> f a)"

text \<open>\<open>Math.trunc\<close>, used to write the remainder operator.\<close>

definition trunc :: "real \<Rightarrow> int" where
  "trunc a = (if 0 \<le> a then \<lfloor>a\<rfloor> else \<lceil>a\<rceil>)"

text \<open>
  The operator \<open>%\<close>: the remainder of the truncated division, with the sign of the
  dividend; a zero divisor gives NaN.
\<close>

definition js_rem :: "real \<Rightarrow> real \<Rightarrow> error + real" where
  "js_rem a b = (if b = 0 then Inl NotFinite else Inr (a - b * of_int (trunc (a / b))))"

section \<open>Configuration\<close>

definition CURVE_SCALE :: real where "CURVE_SCALE = 25 / 10"
definition INITIAL_VELOCITY :: real where "INITIAL_VELOCITY = 2 / 10000"
definition MIN_VELOCITY :: real where "MIN_VELOCITY = 5 / 100000"
definition MAX_VELOCITY :: real where "MAX_VELOCITY = 4 / 1000"
definition GRAVITY_FACTOR :: real where "GRAVITY_FACTOR = 3 / 1000000"
definition VELOCITY_DAMPING :: real where "VELOCITY_DAMPING = 995 / 1000"
definition FIXED_DELTA_TIME :: real where "FIXED_DELTA_TIME = 16"

section \<open>The vector class of the rendering library\<close>

text \<open>
  \<open>THREE.Vector3\<close>, as far as the service calls it. The methods of the library mutate
  their receiver and return it; here each is the function from the receiver's value
  (and the arguments) to the receiver's new value, and the places below that hold a
  vector say which object is written.
\<close>

datatype Vector3 = Vector3 (vx: real) (vy: real) (vz: real)

definition add :: "Vector3 \<Rightarrow> Vector3 \<Rightarrow> Vector3" where
  "add a b = Vector3 (vx a + vx b) (vy a + vy b) (vz a + vz b)"

definition sub :: "Vector3 \<Rightarrow> Vector3 \<Rightarrow> Vector3" where
  "sub a b = Vector3 (vx a - vx b) (vy a - vy b) (vz a - vz b)"

definition multiplyScalar :: "Vector3 \<Rightarrow> real \<Rightarrow> Vector3" where
  "multiplyScalar v k = Vector3 (vx v * k) (vy v * k) (vz v * k)"

text \<open>
  \<open>divideScalar(k)\<close> is \<open>multiplyScalar(1 / k)\<close>; for \<open>k = 0\<close> the factor is an
  infinity and the components are infinite or NaN.
\<close>

definition divideScalar :: "Vector3 \<Rightarrow> real \<Rightarrow> error + Vector3" where
  "divideScalar v k = (if k = 0 then Inl NotFinite else Inr (multiplyScalar v (1 / k)))"

text \<open>
  \<open>length()\<close> is the square root of the sum of the squares. \<open>normalize()\<close> is, in
  the library, \<open>return this.divideScalar(this.length() || 1)\<close>: a length of zero is
  replaced by 1 before the division, so the zero vector is returned as it is.
\<close>

definition length_v :: "Vector3 \<Rightarrow> real" where
  "length_v v = sqrt (vx v * vx v + vy v * vy v + vz v * vz v)"

definition normalize_v :: "Vector3 \<Rightarrow> error + Vector3" where
  "normalize_v v = divideScalar v (if length_v v = 0 then 1 else length_v v)"

definition crossVectors :: "Vector3 \<Rightarrow> Vector3 \<Rightarrow> Vector3" where
  "crossVectors a b =
     Vector3 (vy a * vz b - vz a * vy b) (vz a * vx b - vx a * vz b) (vx a * vy b - vy a * vx b)"

section \<open>The parametric curve\<close>

text \<open>
  \<open>createParametricCurve\<close> returns an object whose two methods share the vectors
  \<open>vector\<close> and \<open>vector2\<close> of the enclosing call. A method returns one of these two
  objects, not a copy: the result is a reference, and the value a caller sees through
  it is whatever the object holds when the caller reads it.
\<close>

record ParametricCurve =
  vector :: Vector3
  vector2 :: Vector3

datatype ref = Vector | Vector2

definition deref :: "ParametricCurve \<Rightarrow> ref \<Rightarrow> Vector3" where
  "deref c r = (case r of Vector \<Rightarrow> vector c | Vector2 \<Rightarrow> vector2 c)"

definition assign :: "ref \<Rightarrow> Vector3 \<Rightarrow> ParametricCurve \<Rightarrow> ParametricCurve" where
  "assign r v c = (case r of Vector \<Rightarrow> c\<lparr>vector := v\<rparr> | Vector2 \<Rightarrow> c\<lparr>vector2 := v\<rparr>)"

definition createParametricCurve :: ParametricCurve where
  "createParametricCurve = \<lparr>vector = Vector3 0 0 0, vector2 = Vector3 0 0 0\<rparr>"

definition PI2 :: real where "PI2 = pi * 2"

definition getPointAt :: "real \<Rightarrow> ParametricCurve \<Rightarrow> ref \<times> ParametricCurve" where
  "getPointAt t c =
     (let angle = t * PI2;
          x = sin (angle * 2) * cos (angle * 3) * 60;
          y = sin (angle * 4) * 8 + cos (angle * 8) * 4 + 15;
          z = sin (angle * (15 / 10)) * cos (angle * 2) * 60
      in (Vector, c\<lparr>vector := multiplyScalar (Vector3 x y z) CURVE_SCALE\<rparr>))"

definition getTangentAt :: "real \<Rightarrow> ParametricCurve \<Rightarrow> error + (ref \<times> ParametricCurve)" where
  "getTangentAt t c =
     (let delta = 1 / 10000;
          t1 = max 0 (t - delta);
          t2 = min 1 (t + delta);
          (p2, c1) = getPointAt t2 c;
          c2 = c1\<lparr>vector2 := deref c1 p2\<rparr>;
          (p1, c3) = getPointAt t1 c2;
          c4 = c3\<lparr>vector2 := sub (vector2 c3) (deref c3 p1)\<rparr>
      in bind_r (normalize_v (vector2 c4)) (\<lambda>n. Inr (Vector2, c4\<lparr>vector2 := n\<rparr>)))"

section \<open>The service\<close>

text \<open>
  The vehicle node, as far as the service writes it: its position, and the three
  vectors \<open>(right, carUp, forward)\<close> handed to \<open>makeBasis\<close>, from which the library sets
  the rotation (\<open>rotateY(0)\<close> turns by the angle zero). The camera: its position and
  the last target given to \<open>lookAt\<close>.
\<close>

record Group =
  g_position :: Vector3
  g_basis :: "Vector3 \<times> Vector3 \<times> Vector3"

record PerspectiveCamera =
  c_position :: Vector3
  c_lookAt :: "Vector3 option"

datatype geometry = TrackGeometry | LiftersGeometry | ShadowGeometry | GroundGeometry

datatype material = TrackMaterial | LiftersMaterial | ShadowMaterial | GroundMaterial

text \<open>
  The fields of \<open>AnimationService\<close>. \<open>renderer\<close> and \<open>scene\<close> say whether the field is
  assigned (\<open>dispose\<close> tests them); \<open>mixer\<close> says whether an animation mixer exists.
\<close>

record AnimationService =
  animationId :: nat
  progress :: real
  velocity :: real
  curve :: ParametricCurve
  carModel :: "Group option"
  mixer :: bool
  mouseX :: real
  geometries :: "geometry list"
  materials :: "material list"
  renderer :: bool
  scene :: bool
  camera :: PerspectiveCamera

text \<open>
  The host and the rendering library, as far as the service acts on them: the
  animation frame requests that are neither run nor cancelled, the last handle the
  host issued (handles are positive), and the calls the service made on the
  library's objects, in order.
\<close>

datatype call =
    GeometryDispose geometry
  | MaterialDispose material
  | RendererDispose
  | ForceContextLoss
  | SceneClear
  | MixerUpdate
  | Render

record Host =
  raf_pending :: "nat list"
  raf_last :: nat
  calls :: "call list"

definition requestAnimationFrame :: "Host \<Rightarrow> nat \<times> Host" where
  "requestAnimationFrame h =
     (let n = Suc (raf_last h) in (n, h\<lparr>raf_pending := raf_pending h @ [n], raf_last := n\<rparr>))"

definition cancelAnimationFrame :: "nat \<Rightarrow> Host \<Rightarrow> Host" where
  "cancelAnimationFrame n h = h\<lparr>raf_pending := removeAll n (raf_pending h)\<rparr>"

text \<open>
  \<open>initialize\<close>: the field initialisers and the assignments of \<open>initialize\<close>. The
  constructors of the track geometries sample the curve, so the two shared vectors
  hold values of the library's choosing afterwards: \<open>c\<close> is the curve object as the
  constructors leave it. The vehicle is requested and arrives later (\<open>carLoaded\<close>).
\<close>

definition initialize :: "ParametricCurve \<Rightarrow> AnimationService" where
  "initialize c =
     \<lparr>animationId = 0, progress = 0, velocity = INITIAL_VELOCITY, curve = c,
      carModel = None, mixer = False, mouseX = 0,
      geometries = [TrackGeometry, LiftersGeometry, ShadowGeometry, GroundGeometry],
      materials = [TrackMaterial, LiftersMaterial, ShadowMaterial, GroundMaterial],
      renderer = True, scene = True,
      camera = \<lparr>c_position = Vector3 0 5 5, c_lookAt = None\<rparr>\<rparr>"

text \<open>The success callback of \<open>loadCarModel\<close>; \<open>anim\<close>: the asset has animations.\<close>

definition carLoaded :: "bool \<Rightarrow> AnimationService \<Rightarrow> AnimationService" where
  "carLoaded anim s =
     s\<lparr>carModel := Some \<lparr>g_position = Vector3 0 0 0,
                           g_basis = (Vector3 1 0 0, Vector3 0 1 0, Vector3 0 0 1)\<rparr>,
       mixer := (if anim then True else mixer s)\<rparr>"

definition setMouseX :: "real \<Rightarrow> AnimationService \<Rightarrow> AnimationService" where
  "setMouseX normalizedX s = s\<lparr>mouseX := normalizedX\<rparr>"

text \<open>
  \<open>updateCameraPosition\<close>. \<open>position\<close> and \<open>tangent\<close> are the references the curve
  returned; every use reads the object behind the reference as it is at that point
  (\<open>deref\<close>). \<open>tangent.multiplyScalar(5)\<close> writes the object behind \<open>tangent\<close>.
\<close>

definition updateCameraPosition :: "AnimationService \<Rightarrow> error + AnimationService" where
  "updateCameraPosition s =
     (let s1 = s\<lparr>progress := progress s + velocity s\<rparr> in
      bind_r (js_rem (progress s1) 1) (\<lambda>r.
      let s2 = s1\<lparr>progress := r\<rparr>;
          (position, c1) = getPointAt (progress s2) (curve s2) in
      bind_r (getTangentAt (progress s2) c1) (\<lambda>(tangent, c2).
      let slopeEffect = - vy (deref c2 tangent);
          acceleration = slopeEffect * GRAVITY_FACTOR * FIXED_DELTA_TIME;
          s3 = s2\<lparr>velocity := velocity s2 + acceleration\<rparr>;
          s4 = s3\<lparr>velocity := velocity s3 * VELOCITY_DAMPING\<rparr>;
          s5 = s4\<lparr>velocity := max MIN_VELOCITY (min MAX_VELOCITY (velocity s4))\<rparr>;
          cameraOffset = add (multiplyScalar (deref c2 tangent) (- (15 / 10))) (Vector3 0 1 0);
          p1 = add (deref c2 position) cameraOffset;
          mouseOffsetX = (mouseX s5 - 5 / 10) * 20;
          p2 = Vector3 (vx p1 + mouseOffsetX) (vy p1) (vz p1);
          copied = deref c2 position;
          c3 = assign tangent (multiplyScalar (deref c2 tangent) 5) c2;
          lookAhead = add copied (deref c3 tangent)
      in Inr (s5\<lparr>curve := c3, camera := \<lparr>c_position = p2, c_lookAt = Some lookAhead\<rparr>\<rparr>))))"

text \<open>
  \<open>updateCarPosition\<close> returns at once while no vehicle is loaded. \<open>tangent.clone()\<close>
  is a copy, so \<open>forward\<close>, \<open>right\<close> and \<open>carUp\<close> are vectors of their own.
\<close>

definition updateCarPosition :: "AnimationService \<Rightarrow> error + AnimationService" where
  "updateCarPosition s =
     (case carModel s of
        None \<Rightarrow> Inr s
      | Some car \<Rightarrow>
          let (position, c1) = getPointAt (progress s) (curve s) in
          bind_r (getTangentAt (progress s) c1) (\<lambda>(tangent, c2).
          let q1 = deref c2 position;
              q2 = Vector3 (vx q1) (vy q1 + 2 / 10) (vz q1) in
          bind_r (normalize_v (deref c2 tangent)) (\<lambda>forward.
          let up = Vector3 0 1 0 in
          bind_r (normalize_v (crossVectors up forward)) (\<lambda>right.
          bind_r (normalize_v (crossVectors forward right)) (\<lambda>carUp.
          Inr (s\<lparr>curve := c2,
                 carModel := Some (car\<lparr>g_position := q2,
                                        g_basis := (right, carUp, forward)\<rparr>)\<rparr>))))))"

text \<open>
  \<open>animate\<close>, the frame callback: it requests the next frame first, then updates
  camera and vehicle, advances the mixer if there is one, and renders.
\<close>

definition animate :: "AnimationService \<times> Host \<Rightarrow> error + (AnimationService \<times> Host)" where
  "animate w =
     (let (s, h) = w;
          (n, h1) = requestAnimationFrame h;
          s1 = s\<lparr>animationId := n\<rparr> in
      bind_r (updateCameraPosition s1) (\<lambda>s2.
      bind_r (updateCarPosition s2) (\<lambda>s3.
      let h2 = (if mixer s3 then h1\<lparr>calls := calls h1 @ [MixerUpdate]\<rparr> else h1) in
      if renderer s3 then Inr (s3, h2\<lparr>calls := calls h2 @ [Render]\<rparr>) else Inl TypeError)))"

definition start :: "AnimationService \<times> Host \<Rightarrow> error + (AnimationService \<times> Host)" where
  "start w = animate w"

text \<open>
  \<open>dispose\<close>: a non-zero animation id is cancelled and reset; every geometry and
  material in the lists is released and the lists are emptied; an assigned renderer
  is disposed and its context dropped; an assigned scene is cleared.
\<close>

definition dispose :: "AnimationService \<times> Host \<Rightarrow> AnimationService \<times> Host" where
  "dispose w =
     (let (s, h) = w;
          (s1, h1) = (if animationId s \<noteq> 0
                      then (s\<lparr>animationId := 0\<rparr>, cancelAnimationFrame (animationId s) h)
                      else (s, h));
          h2 = h1\<lparr>calls := calls h1 @ map GeometryDispose (geometries s1)\<rparr>;
          s2 = s1\<lparr>geometries := []\<rparr>;
          h3 = h2\<lparr>calls := calls h2 @ map MaterialDispose (materials s2)\<rparr>;
          s3 = s2\<lparr>materials := []\<rparr>;
          h4 = (if renderer s3 then h3\<lparr>calls := calls h3 @ [RendererDispose, ForceContextLoss]\<rparr>
                else h3);
          h5 = (if scene s3 then h4\<lparr>calls := calls h4 @ [SceneClear]\<rparr> else h4)
      in (s3, h5))"

text \<open>
  The host runs the oldest pending request: it takes the request off its list and
  calls the callback, which is \<open>animate\<close>. With nothing pending nothing runs.
\<close>

definition frame :: "AnimationService \<times> Host \<Rightarrow> error + (AnimationService \<times> Host)" where
  "frame w =
     (let (s, h) = w in
      case raf_pending h of
        [] \<Rightarrow> Inr (s, h)
      | n # ns \<Rightarrow> animate (s, h\<lparr>raf_pending := ns\<rparr>))"

fun frames :: "nat \<Rightarrow> AnimationService \<times> Host \<Rightarrow> error + (AnimationService \<times> Host)" where
  "frames 0 w = Inr w"
| "frames (Suc k) w = bind_r (frame w) (frames k)"

text \<open>
  The states the component can be in once \<open>ngOnInit\<close> has called \<open>initialize\<close> and
  \<open>start\<close>: from there the host runs frames, the pointer handler calls \<open>setMouseX\<close>,
  and the loader delivers the vehicle.
\<close>

inductive reachable :: "AnimationService \<times> Host \<Rightarrow> bool" where
  started: "start (initialize c, \<lparr>raf_pending = [], raf_last = k, calls = []\<rparr>) = Inr w
              \<Longrightarrow> reachable w"
| framed: "reachable w \<Longrightarrow> frame w = Inr w' \<Longrightarrow> reachable w'"
| steered: "reachable (s, h) \<Longrightarrow> reachable (setMouseX v s, h)"
| loaded: "reachable (s, h) \<Longrightarrow> reachable (carLoaded anim s, h)"

section \<open>The path as a function of progress\<close>

text \<open>
  The position at \<open>t\<close>: the value \<open>getPointAt t\<close> leaves in the vector it returns.
\<close>

definition curve_position :: "real \<Rightarrow> Vector3" where
  "curve_position t = (case getPointAt t createParametricCurve of (p, c) \<Rightarrow> deref c p)"

text \<open>
  The tangent at \<open>t\<close> as the specification words it: the difference of the positions
  at \<open>t + \<delta>\<close> and \<open>t - \<delta>\<close>, both clamped into \<open>[0, 1]\<close>, scaled to unit length (a zero
  difference is left as it is).
\<close>

definition unit_v :: "Vector3 \<Rightarrow> Vector3" where
  "unit_v v = (if length_v v = 0 then v else multiplyScalar v (1 / length_v v))"

definition curve_tangent :: "real \<Rightarrow> Vector3" where
  "curve_tangent t =
     unit_v (sub (curve_position (min 1 (t + 1 / 10000))) (curve_position (max 0 (t - 1 / 10000))))"

section \<open>The placements as the specification words them\<close>

text \<open>
  The camera sits at the position plus the tangent times \<open>-1.5\<close> plus \<open>(0, 1, 0)\<close>,
  moved along x by the steering input minus a half, times the sensitivity 20; it
  looks at the position plus five times the tangent. The vehicle sits at the
  position raised by \<open>0.2\<close>, on the basis built from the tangent.
\<close>

definition camera_position_at :: "Vector3 \<Rightarrow> Vector3 \<Rightarrow> real \<Rightarrow> Vector3" where
  "camera_position_at p tg m =
     add (add p (add (multiplyScalar tg (- (15 / 10))) (Vector3 0 1 0)))
         (Vector3 ((m - 5 / 10) * 20) 0 0)"

definition look_at_target :: "Vector3 \<Rightarrow> Vector3 \<Rightarrow> Vector3" where
  "look_at_target p tg = add p (multiplyScalar tg 5)"

definition vehicle_position_at :: "Vector3 \<Rightarrow> Vector3" where
  "vehicle_position_at p = add p (Vector3 0 (2 / 10) 0)"

definition vehicle_basis_at :: "Vector3 \<Rightarrow> Vector3 \<times> Vector3 \<times> Vector3" where
  "vehicle_basis_at tg =
     (let forward = unit_v tg;
          right = unit_v (crossVectors (Vector3 0 1 0) forward);
          vehicleUp = unit_v (crossVectors forward right)
      in (right, vehicleUp, forward))"

section \<open>Facts about the vector class and the curve\<close>

lemma length_v_nonneg: "0 \<le> length_v v"
  by (simp add: length_v_def)

lemma normalize_v_unit: "normalize_v v = Inr (unit_v v)"
  by (simp add: normalize_v_def divideScalar_def unit_v_def multiplyScalar_def)

lemma length_v_multiplyScalar: "length_v (multiplyScalar v k) = \<bar>k\<bar> * length_v v"
proof -
  have "vx v * k * (vx v * k) + vy v * k * (vy v * k) + vz v * k * (vz v * k)
        = k\<^sup>2 * (vx v * vx v + vy v * vy v + vz v * vz v)"
    by (simp add: power2_eq_square algebra_simps)
  then show ?thesis
    by (simp add: length_v_def multiplyScalar_def real_sqrt_mult)
qed

lemma length_v_unit: "length_v (unit_v v) = (if length_v v = 0 then 0 else 1)"
  using length_v_nonneg [of v] by (simp add: unit_v_def length_v_multiplyScalar)

lemma length_v_zero_iff: "length_v v = 0 \<longleftrightarrow> v = Vector3 0 0 0"
proof (cases v)
  case (Vector3 a b c)
  have "a * a + b * b + c * c = 0 \<longleftrightarrow> a * a + b * b = 0 \<and> c * c = 0"
    by (intro add_nonneg_eq_0_iff) simp_all
  then have "a * a + b * b + c * c = 0 \<longleftrightarrow> a = 0 \<and> b = 0 \<and> c = 0"
    by (simp add: sum_squares_eq_zero_iff)
  then show ?thesis using Vector3 by (simp add: length_v_def)
qed

lemma getPointAt_eq: "getPointAt t c = (Vector, c\<lparr>vector := curve_position t\<rparr>)"
  by (simp add: getPointAt_def curve_position_def deref_def Let_def createParametricCurve_def)

lemma curve_position_eq:
  "curve_position t =
     Vector3 (150 * (sin (4 * pi * t) * cos (6 * pi * t)))
             (20 * sin (8 * pi * t) + 10 * cos (16 * pi * t) + 75 / 2)
             (150 * (sin (3 * pi * t) * cos (4 * pi * t)))"
  by (simp add: getPointAt_def curve_position_def deref_def Let_def createParametricCurve_def
      multiplyScalar_def CURVE_SCALE_def PI2_def algebra_simps)

lemma getTangentAt_eq:
  "getTangentAt t c =
     Inr (Vector2, \<lparr>vector = curve_position (max 0 (t - 1 / 10000)), vector2 = curve_tangent t\<rparr>)"
  by (simp add: getTangentAt_def getPointAt_eq Let_def deref_def normalize_v_unit bind_r_def
      curve_tangent_def)

section \<open>The update functions in closed form\<close>

lemma js_rem_1: "js_rem a 1 = Inr (a - of_int (trunc a))"
  by (simp add: js_rem_def)

lemma updateCameraPosition_eq:
  "updateCameraPosition s =
     (let p = progress s + velocity s - of_int (trunc (progress s + velocity s));
          q = curve_position (max 0 (p - 1 / 10000));
          tg = curve_tangent p;
          b = add q (add (multiplyScalar tg (- (15 / 10))) (Vector3 0 1 0))
      in Inr (s\<lparr>progress := p,
                velocity := max MIN_VELOCITY (min MAX_VELOCITY
                   ((velocity s + - vy tg * GRAVITY_FACTOR * FIXED_DELTA_TIME) * VELOCITY_DAMPING)),
                curve := \<lparr>vector = q, vector2 = multiplyScalar tg 5\<rparr>,
                camera := \<lparr>c_position = Vector3 (vx b + (mouseX s - 5 / 10) * 20) (vy b) (vz b),
                            c_lookAt = Some (add q (multiplyScalar tg 5))\<rparr>\<rparr>))"
  by (simp add: updateCameraPosition_def js_rem_1 bind_r_def getPointAt_eq getTangentAt_eq
      Let_def deref_def assign_def)

lemma updateCarPosition_None: "carModel s = None \<Longrightarrow> updateCarPosition s = Inr s"
  by (simp add: updateCarPosition_def)

lemma updateCarPosition_Some:
  "carModel s = Some car \<Longrightarrow>
   updateCarPosition s =
     (let q = curve_position (max 0 (progress s - 1 / 10000));
          forward = unit_v (curve_tangent (progress s));
          right = unit_v (crossVectors (Vector3 0 1 0) forward);
          carUp = unit_v (crossVectors forward right)
      in Inr (s\<lparr>curve := \<lparr>vector = q, vector2 = curve_tangent (progress s)\<rparr>,
                carModel := Some (car\<lparr>g_position := Vector3 (vx q) (vy q + 2 / 10) (vz q),
                                       g_basis := (right, carUp, forward)\<rparr>)\<rparr>))"
  by (simp add: updateCarPosition_def bind_r_def getPointAt_eq getTangentAt_eq
      Let_def deref_def normalize_v_unit)

lemma trunc_nonneg_bounds:
  assumes "0 \<le> a"
  shows "0 \<le> a - of_int (trunc a)" and "a - of_int (trunc a) < 1"
  using assms by (simp_all add: trunc_def) linarith+

lemma js_rem_1_cases: "js_rem a 1 = Inr (if 0 \<le> a then frac a else - frac (- a))"
  by (simp add: js_rem_def trunc_def frac_def ceiling_def)

lemma velocity_bounds:
  "MIN_VELOCITY \<le> max MIN_VELOCITY (min MAX_VELOCITY a)"
  "max MIN_VELOCITY (min MAX_VELOCITY a) \<le> MAX_VELOCITY"
  by (simp_all add: MIN_VELOCITY_def MAX_VELOCITY_def)

lemma updateCameraPosition_total:
  obtains s' where "updateCameraPosition s = Inr s'"
    and "progress s' = progress s + velocity s - of_int (trunc (progress s + velocity s))"
    and "MIN_VELOCITY \<le> velocity s'" and "velocity s' \<le> MAX_VELOCITY"
    and "renderer s' = renderer s" and "mixer s' = mixer s" and "carModel s' = carModel s"
    and "animationId s' = animationId s" and "scene s' = scene s"
    and "geometries s' = geometries s" and "materials s' = materials s"
    and "mouseX s' = mouseX s"
proof
  let ?s' = "projr (updateCameraPosition s)"
  show "updateCameraPosition s = Inr ?s'"
    by (simp add: updateCameraPosition_eq Let_def)
  show "progress ?s' = progress s + velocity s - of_int (trunc (progress s + velocity s))"
    by (simp add: updateCameraPosition_eq Let_def)
  obtain a where v: "velocity ?s' = max MIN_VELOCITY (min MAX_VELOCITY a)"
    by (simp add: updateCameraPosition_eq Let_def)
  show "MIN_VELOCITY \<le> velocity ?s'" "velocity ?s' \<le> MAX_VELOCITY"
    unfolding v by (rule velocity_bounds)+
  show "renderer ?s' = renderer s" "mixer ?s' = mixer s" "carModel ?s' = carModel s"
    "animationId ?s' = animationId s" "scene ?s' = scene s"
    "geometries ?s' = geometries s" "materials ?s' = materials s" "mouseX ?s' = mouseX s"
    by (simp_all add: updateCameraPosition_eq Let_def)
qed

lemma updateCarPosition_total:
  obtains s' where "updateCarPosition s = Inr s'"
    and "progress s' = progress s" and "velocity s' = velocity s"
    and "renderer s' = renderer s" and "mixer s' = mixer s"
    and "animationId s' = animationId s" and "scene s' = scene s"
    and "geometries s' = geometries s" and "materials s' = materials s"
    and "mouseX s' = mouseX s" and "camera s' = camera s"
    and "(carModel s' = None) = (carModel s = None)"
proof (cases "carModel s")
  case None
  show ?thesis
    by (rule that [of s]) (simp_all add: updateCarPosition_None None)
next
  case (Some car)
  note eq = updateCarPosition_Some [OF Some]
  let ?s' = "projr (updateCarPosition s)"
  show ?thesis
    by (rule that [of ?s']) (simp_all add: eq Let_def Some)
qed

lemma animate_total:
  assumes "renderer s"
  obtains s' h' where "animate (s, h) = Inr (s', h')"
    and "progress s' = progress s + velocity s - of_int (trunc (progress s + velocity s))"
    and "MIN_VELOCITY \<le> velocity s'" and "velocity s' \<le> MAX_VELOCITY"
    and "renderer s'" and "scene s' = scene s"
    and "animationId s' = Suc (raf_last h)"
    and "raf_pending h' = raf_pending h @ [Suc (raf_last h)]"
    and "raf_last h' = Suc (raf_last h)"
    and "geometries s' = geometries s" and "materials s' = materials s"
    and "mouseX s' = mouseX s" and "(carModel s' = None) = (carModel s = None)"
proof -
  obtain s2 where s2: "updateCameraPosition (s\<lparr>animationId := Suc (raf_last h)\<rparr>) = Inr s2"
    and p2: "progress s2 = progress s + velocity s - of_int (trunc (progress s + velocity s))"
    and v2: "MIN_VELOCITY \<le> velocity s2" "velocity s2 \<le> MAX_VELOCITY"
    and r2: "renderer s2" "scene s2 = scene s" "animationId s2 = Suc (raf_last h)"
      "geometries s2 = geometries s" "materials s2 = materials s" "mouseX s2 = mouseX s"
      "carModel s2 = carModel s"
    using assms by (rule_tac s = "s\<lparr>animationId := Suc (raf_last h)\<rparr>" in updateCameraPosition_total) simp
  obtain s3 where s3: "updateCarPosition s2 = Inr s3"
    and p3: "progress s3 = progress s2" "velocity s3 = velocity s2"
    and r3: "renderer s3 = renderer s2" "scene s3 = scene s2" "animationId s3 = animationId s2"
      "geometries s3 = geometries s2" "materials s3 = materials s2" "mouseX s3 = mouseX s2"
      "(carModel s3 = None) = (carModel s2 = None)"
    by (rule updateCarPosition_total [of s2]) simp
  let ?h1 = "h\<lparr>raf_pending := raf_pending h @ [Suc (raf_last h)], raf_last := Suc (raf_last h)\<rparr>"
  let ?h2 = "if mixer s3 then ?h1\<lparr>calls := calls ?h1 @ [MixerUpdate]\<rparr> else ?h1"
  have "animate (s, h) = Inr (s3, ?h2\<lparr>calls := calls ?h2 @ [Render]\<rparr>)"
    using s2 s3 r2 r3
    by (simp add: animate_def requestAnimationFrame_def Let_def bind_r_def)
  then show thesis
    by (rule that) (simp_all add: p2 v2 r2 p3 r3)
qed

section \<open>Bounds on progress and velocity\<close>

lemma frame_total:
  assumes "renderer s" and "raf_pending h \<noteq> []"
  obtains s' h' where "frame (s, h) = Inr (s', h')"
    and "progress s' = progress s + velocity s - of_int (trunc (progress s + velocity s))"
    and "MIN_VELOCITY \<le> velocity s'" and "velocity s' \<le> MAX_VELOCITY"
    and "renderer s'" and "raf_pending h' \<noteq> []"
proof -
  obtain n ns where ns: "raf_pending h = n # ns"
    using assms(2) by (cases "raf_pending h") auto
  obtain s' h' where "animate (s, h\<lparr>raf_pending := ns\<rparr>) = Inr (s', h')"
    and "progress s' = progress s + velocity s - of_int (trunc (progress s + velocity s))"
    and "MIN_VELOCITY \<le> velocity s'" and "velocity s' \<le> MAX_VELOCITY"
    and "renderer s'"
    and "raf_pending h' = raf_pending (h\<lparr>raf_pending := ns\<rparr>) @ [Suc (raf_last (h\<lparr>raf_pending := ns\<rparr>))]"
    using assms(1) by (rule animate_total [of s "h\<lparr>raf_pending := ns\<rparr>"]) blast
  then show thesis
    using ns by (intro that [of s' h']) (simp_all add: frame_def)
qed

lemma MIN_VELOCITY_pos: "0 < MIN_VELOCITY"
  by (simp add: MIN_VELOCITY_def)

lemma frames_invariant:
  assumes "renderer s" and "raf_pending h \<noteq> []" and "0 \<le> progress s" and "0 \<le> velocity s"
  shows "\<exists>s' h'. frames (Suc k) (s, h) = Inr (s', h') \<and> renderer s' \<and> raf_pending h' \<noteq> [] \<and>
           0 \<le> progress s' \<and> progress s' < 1 \<and>
           MIN_VELOCITY \<le> velocity s' \<and> velocity s' \<le> MAX_VELOCITY"
  using assms
proof (induction k arbitrary: s h)
  case 0
  obtain s' h' where "frame (s, h) = Inr (s', h')"
    and "progress s' = progress s + velocity s - of_int (trunc (progress s + velocity s))"
    and "MIN_VELOCITY \<le> velocity s'" and "velocity s' \<le> MAX_VELOCITY"
    and "renderer s'" and "raf_pending h' \<noteq> []"
    using "0.prems"(1,2) by (rule frame_total)
  moreover have "0 \<le> progress s + velocity s"
    using "0.prems"(3,4) by simp
  ultimately show ?case
    using trunc_nonneg_bounds [of "progress s + velocity s"]
    by (simp add: bind_r_def)
next
  case (Suc k)
  obtain s' h' where f: "frame (s, h) = Inr (s', h')"
    and p: "progress s' = progress s + velocity s - of_int (trunc (progress s + velocity s))"
    and v: "MIN_VELOCITY \<le> velocity s'" "velocity s' \<le> MAX_VELOCITY"
    and r: "renderer s'" "raf_pending h' \<noteq> []"
    using Suc.prems(1,2) by (rule frame_total)
  have "0 \<le> progress s + velocity s"
    using Suc.prems(3,4) by simp
  then have "0 \<le> progress s'"
    using trunc_nonneg_bounds(1) [of "progress s + velocity s"] p by simp
  moreover have "0 \<le> velocity s'"
    using v(1) MIN_VELOCITY_pos by linarith
  ultimately have "\<exists>s'' h''. frames (Suc k) (s', h') = Inr (s'', h'') \<and> renderer s'' \<and>
      raf_pending h'' \<noteq> [] \<and> 0 \<le> progress s'' \<and> progress s'' < 1 \<and>
      MIN_VELOCITY \<le> velocity s'' \<and> velocity s'' \<le> MAX_VELOCITY"
    using r by (intro Suc.IH)
  then show ?case
    using f by (simp add: bind_r_def)
qed

text \<open>
  Claim C1. Take a started service (the renderer is assigned, a frame is requested)
  whose progress and velocity are not negative; the state after \<open>initialize\<close>, with
  progress 0 and the initial velocity, is one. However many frames the host runs,
  at least one, all of them complete, and afterwards the progress lies in \<open>[0, 1)\<close>
  and the velocity between \<open>MIN_VELOCITY\<close> and \<open>MAX_VELOCITY\<close>.
\<close>

theorem motion_state_bounds:
  assumes "renderer s" and "raf_pending h \<noteq> []"
    and "0 \<le> progress s" and "0 \<le> velocity s" and "0 < k"
  shows "\<exists>s' h'. frames k (s, h) = Inr (s', h') \<and>
           0 \<le> progress s' \<and> progress s' < 1 \<and>
           MIN_VELOCITY \<le> velocity s' \<and> velocity s' \<le> MAX_VELOCITY"
proof -
  obtain j where "k = Suc j"
    using assms(5) by (cases k) auto
  then show ?thesis
    using frames_invariant [OF assms(1-4), of j] by blast
qed

theorem motion_state_bounds_witness:
  "\<exists>s' h'. bind_r (start (initialize createParametricCurve,
                          \<lparr>raf_pending = [], raf_last = 0, calls = []\<rparr>))
             (frames 1000) = Inr (s', h') \<and>
           0 \<le> progress s' \<and> progress s' < 1 \<and>
           MIN_VELOCITY \<le> velocity s' \<and> velocity s' \<le> MAX_VELOCITY"
proof -
  let ?s0 = "initialize createParametricCurve"
  let ?h0 = "\<lparr>raf_pending = [], raf_last = 0, calls = []\<rparr>"
  have t: "trunc INITIAL_VELOCITY = 0"
    by (simp add: trunc_def INITIAL_VELOCITY_def)
  obtain s1 h1 where a: "animate (?s0, ?h0) = Inr (s1, h1)"
    and p: "progress s1 = progress ?s0 + velocity ?s0
              - of_int (trunc (progress ?s0 + velocity ?s0))"
    and v: "MIN_VELOCITY \<le> velocity s1"
    and r: "renderer s1" and q: "raf_pending h1 = raf_pending ?h0 @ [Suc (raf_last ?h0)]"
    by (rule animate_total [of ?s0 ?h0]) (simp_all add: initialize_def)
  have "0 \<le> progress s1"
    using p by (simp add: initialize_def t) (simp add: INITIAL_VELOCITY_def)
  moreover have "0 \<le> velocity s1"
    using v MIN_VELOCITY_pos by linarith
  moreover have "raf_pending h1 \<noteq> []"
    using q by simp
  ultimately show ?thesis
    using motion_state_bounds [of s1 h1 1000] r
    by (simp add: start_def a bind_r_def)
qed

section \<open>Where the camera and the vehicle are placed\<close>

lemma updateCameraPosition_placement:
  "updateCameraPosition s =
     (let p = progress s + velocity s - of_int (trunc (progress s + velocity s));
          q = curve_position (max 0 (p - 1 / 10000));
          tg = curve_tangent p
      in Inr (s\<lparr>progress := p,
                velocity := max MIN_VELOCITY (min MAX_VELOCITY
                   ((velocity s + - vy tg * GRAVITY_FACTOR * FIXED_DELTA_TIME) * VELOCITY_DAMPING)),
                curve := \<lparr>vector = q, vector2 = multiplyScalar tg 5\<rparr>,
                camera := \<lparr>c_position = camera_position_at q tg (mouseX s),
                            c_lookAt = Some (look_at_target q tg)\<rparr>\<rparr>))"
  by (simp add: updateCameraPosition_eq Let_def camera_position_at_def look_at_target_def add_def)

lemma updateCarPosition_placement:
  "carModel s = Some car \<Longrightarrow>
   updateCarPosition s =
     (let q = curve_position (max 0 (progress s - 1 / 10000));
          tg = curve_tangent (progress s)
      in Inr (s\<lparr>curve := \<lparr>vector = q, vector2 = tg\<rparr>,
                carModel := Some (car\<lparr>g_position := vehicle_position_at q,
                                       g_basis := vehicle_basis_at tg\<rparr>)\<rparr>))"
  by (simp add: updateCarPosition_Some Let_def vehicle_position_at_def vehicle_basis_at_def add_def)

lemma vy_curve_position:
  "vy (curve_position t) = 20 * sin (8 * pi * t) * (1 - sin (8 * pi * t)) + 95 / 2"
proof -
  have "cos (16 * pi * t) = 1 - 2 * (sin (8 * pi * t))\<^sup>2"
    using cos_double_sin [of "8 * pi * t"] by (simp add: algebra_simps)
  then show ?thesis
    by (simp add: curve_position_eq power2_eq_square algebra_simps)
qed

lemma position_lags:
  assumes "1 / 10000 \<le> t" and "t \<le> 1 / 100"
  shows "vy (curve_position (t - 1 / 10000)) < vy (curve_position t)"
proof -
  let ?a = "8 * pi * (t - 1 / 10000)" and ?b = "8 * pi * t"
  have a0: "0 \<le> ?a" using assms(1) pi_gt_zero by simp
  have ab: "?a < ?b" using pi_gt_zero by (simp add: algebra_simps)
  have "?b \<le> 8 * pi * (1 / 100)"
    using assms(2) pi_gt_zero by (intro mult_left_mono) simp_all
  also have "\<dots> < 32 / 100"
    using pi_less_4 by simp
  finally have b1: "?b < 32 / 100" .
  have "32 / 100 < pi / 2" using pi_ge_two by simp
  then have b2: "?b \<le> pi / 2" using b1 by linarith
  have lt: "sin ?a < sin ?b"
    using a0 ab b2 pi_gt_zero by (intro sin_monotone_2pi) linarith+
  have sa0: "0 \<le> sin ?a"
    using a0 ab b2 pi_gt_zero by (intro sin_ge_zero) linarith+
  have "sin ?b \<le> ?b"
    using a0 ab by (intro sin_x_le_x) linarith
  then have sb: "sin ?b < 32 / 100" using b1 by linarith
  then have sa: "sin ?a < 32 / 100" using lt by linarith
  have "0 < (sin ?b - sin ?a) * (1 - sin ?a - sin ?b)"
    using lt sa sb by (intro mult_pos_pos) linarith+
  then have "sin ?a * (1 - sin ?a) < sin ?b * (1 - sin ?b)"
    by (simp add: algebra_simps)
  then show ?thesis
    by (simp add: vy_curve_position)
qed

lemma trunc_unit_interval: "0 \<le> a \<Longrightarrow> a < 1 \<Longrightarrow> trunc a = 0"
  by (simp add: trunc_def floor_eq_iff)

lemma curve_position_0: "curve_position 0 = Vector3 0 (95 / 2) 0"
  by (simp add: curve_position_eq)

lemma vy_curve_position_3_16: "vy (curve_position (3 / 16)) = 15 / 2"
proof -
  have s: "sin (8 * pi * (3 / 16)) = - 1"
    using sin_3over2_pi by (simp add: algebra_simps)
  have "cos (16 * pi * (3 / 16)) = cos (pi + 2 * pi)"
    by (simp add: algebra_simps)
  then have c: "cos (16 * pi * (3 / 16)) = - 1"
    by (simp only: cos_periodic cos_pi)
  show ?thesis
    unfolding curve_position_eq Vector3.sel s c by simp
qed

lemma first_lag: "curve_position (1 / 10000) \<noteq> curve_position (2 / 10000)"
  using position_lags [of "2 / 10000"] by auto

text \<open>
  Claim C4, as stated, fails. The vector a caller got from \<open>getPointAt\<close> is the
  shared one, and later calls write it. At \<open>t = 0.0002\<close>: right after the call it
  holds the position at \<open>t\<close>; after \<open>getTangentAt\<close> at the same \<open>t\<close> it holds the
  position at \<open>0.0001\<close>, a different point. And the vector got at 0 (height 47.5) has
  the height 7.5 of the position at \<open>3/16\<close> once \<open>getPointAt\<close> is called there.
\<close>

theorem path_generator_aliasing:
  "deref (snd (getPointAt (2 / 10000) createParametricCurve))
         (fst (getPointAt (2 / 10000) createParametricCurve)) = curve_position (2 / 10000) \<and>
   \<not> isl (getTangentAt (2 / 10000) (snd (getPointAt (2 / 10000) createParametricCurve))) \<and>
   deref (snd (projr (getTangentAt (2 / 10000)
                        (snd (getPointAt (2 / 10000) createParametricCurve)))))
         (fst (getPointAt (2 / 10000) createParametricCurve)) = curve_position (1 / 10000) \<and>
   curve_position (1 / 10000) \<noteq> curve_position (2 / 10000) \<and>
   vy (deref (snd (getPointAt 0 createParametricCurve))
             (fst (getPointAt 0 createParametricCurve))) = 95 / 2 \<and>
   vy (deref (snd (getPointAt (3 / 16) (snd (getPointAt 0 createParametricCurve))))
             (fst (getPointAt 0 createParametricCurve))) = 15 / 2"
  using first_lag
  by (simp add: getPointAt_eq getTangentAt_eq deref_def curve_position_0 vy_curve_position_3_16)

text \<open>
  Claim C4, amended. What the two methods compute depends on \<open>t\<close> alone, never on
  earlier calls: \<open>getPointAt t\<close> returns the shared vector \<open>vector\<close> holding the
  closed-form position at \<open>t\<close> and leaves \<open>vector2\<close> as it was; \<open>getTangentAt t\<close>
  returns the shared vector \<open>vector2\<close> holding the unit finite-difference tangent at
  \<open>t\<close>, and leaves in \<open>vector\<close> the position at \<open>max 0 (t - 0.0001)\<close>. The results are
  these two objects, not copies, so a result is valid until the next call that
  writes its vector.
\<close>

theorem path_generator_shared_vectors:
  "getPointAt t c = (Vector, c\<lparr>vector := curve_position t\<rparr>) \<and>
   getTangentAt t c =
     Inr (Vector2, \<lparr>vector = curve_position (max 0 (t - 1 / 10000)),
                     vector2 = curve_tangent t\<rparr>) \<and>
   curve_position t =
     Vector3 (150 * (sin (4 * pi * t) * cos (6 * pi * t)))
             (20 * sin (8 * pi * t) + 10 * cos (16 * pi * t) + 75 / 2)
             (150 * (sin (3 * pi * t) * cos (4 * pi * t)))"
  using getPointAt_eq [of t c] getTangentAt_eq [of t c] curve_position_eq [of t]
  by simp

lemma camera_position_at_inject:
  "camera_position_at p tg m = camera_position_at p' tg m \<longleftrightarrow> p = p'"
  by (cases p; cases p') (simp add: camera_position_at_def add_def)

lemma look_at_target_inject: "look_at_target p tg = look_at_target p' tg \<longleftrightarrow> p = p'"
  by (cases p; cases p') (simp add: look_at_target_def add_def)

lemma vehicle_position_at_inject: "vehicle_position_at p = vehicle_position_at p' \<longleftrightarrow> p = p'"
  by (cases p; cases p') (simp add: vehicle_position_at_def add_def)

text \<open>
  Claim C3. The first frame, run by \<open>start\<close> on the state after \<open>initialize\<close>, moves
  the progress to \<open>0.0002\<close> and samples the tangent there, but places the camera and
  its target from the position at \<open>0.0001\<close>: the vector holding the sampled position
  was overwritten while the tangent was computed. Placing them from the position at
  the progress, as the specification words it, gives other points.
\<close>

theorem camera_trails_sample:
  "bind_r (start (initialize c, h))
      (\<lambda>(s', h'). Inr (progress s', c_position (camera s'), c_lookAt (camera s'))) =
     Inr (2 / 10000,
          camera_position_at (curve_position (1 / 10000)) (curve_tangent (2 / 10000)) 0,
          Some (look_at_target (curve_position (1 / 10000)) (curve_tangent (2 / 10000)))) \<and>
   camera_position_at (curve_position (1 / 10000)) (curve_tangent (2 / 10000)) 0 \<noteq>
     camera_position_at (curve_position (2 / 10000)) (curve_tangent (2 / 10000)) 0 \<and>
   look_at_target (curve_position (1 / 10000)) (curve_tangent (2 / 10000)) \<noteq>
     look_at_target (curve_position (2 / 10000)) (curve_tangent (2 / 10000))"
proof -
  have t: "trunc INITIAL_VELOCITY = 0"
    by (simp add: trunc_def INITIAL_VELOCITY_def)
  have "bind_r (start (initialize c, h))
      (\<lambda>(s', h'). Inr (progress s', c_position (camera s'), c_lookAt (camera s'))) =
     Inr (2 / 10000,
          camera_position_at (curve_position (1 / 10000)) (curve_tangent (2 / 10000)) 0,
          Some (look_at_target (curve_position (1 / 10000)) (curve_tangent (2 / 10000))))"
    by (simp add: start_def animate_def requestAnimationFrame_def Let_def
        updateCameraPosition_placement updateCarPosition_None bind_r_def initialize_def t)
       (simp add: INITIAL_VELOCITY_def)
  then show ?thesis
    using first_lag by (simp add: camera_position_at_inject look_at_target_inject)
qed

lemma animate_loaded:
  assumes "renderer s" and "carModel s = Some car"
  obtains s' h' where "animate (s, h) = Inr (s', h')"
    and "progress s' = progress s + velocity s - of_int (trunc (progress s + velocity s))"
    and "carModel s' =
           Some (car\<lparr>g_position := vehicle_position_at
                         (curve_position (max 0 (progress s' - 1 / 10000))),
                      g_basis := vehicle_basis_at (curve_tangent (progress s'))\<rparr>)"
proof -
  let ?s1 = "s\<lparr>animationId := Suc (raf_last h)\<rparr>"
  obtain s2 where s2: "updateCameraPosition ?s1 = Inr s2"
    and p2: "progress s2 = progress s + velocity s - of_int (trunc (progress s + velocity s))"
    and r2: "renderer s2" "carModel s2 = Some car"
    using assms by (rule_tac s = ?s1 in updateCameraPosition_total) simp
  note eq = updateCarPosition_placement [OF r2(2)]
  define s3 where "s3 = projr (updateCarPosition s2)"
  have s3: "updateCarPosition s2 = Inr s3"
    by (simp add: s3_def eq Let_def)
  have r3: "renderer s3" "progress s3 = progress s2"
    and c3: "carModel s3 =
           Some (car\<lparr>g_position := vehicle_position_at
                         (curve_position (max 0 (progress s2 - 1 / 10000))),
                      g_basis := vehicle_basis_at (curve_tangent (progress s2))\<rparr>)"
    using r2(1) by (simp_all add: s3_def eq Let_def)
  let ?h1 = "h\<lparr>raf_pending := raf_pending h @ [Suc (raf_last h)], raf_last := Suc (raf_last h)\<rparr>"
  let ?h2 = "if mixer s3 then ?h1\<lparr>calls := calls ?h1 @ [MixerUpdate]\<rparr> else ?h1"
  have "animate (s, h) = Inr (s3, ?h2\<lparr>calls := calls ?h2 @ [Render]\<rparr>)"
    using s2 s3 r3(1)
    by (simp add: animate_def requestAnimationFrame_def Let_def bind_r_def)
  then show thesis
    by (rule that) (simp_all add: r3 c3 p2)
qed

text \<open>
  Claim C7. \<open>start\<close>, then the arrival of the vehicle, then one frame: the vehicle is
  placed from the position at the progress minus \<open>0.0001\<close>, which is not where the
  position at the progress would place it; its basis is the one built from the
  tangent at the progress.
\<close>

theorem vehicle_trails_sample:
  "bind_r (start (initialize c, \<lparr>raf_pending = [], raf_last = 0, calls = []\<rparr>)) (\<lambda>(s1, h1).
     bind_r (frame (carLoaded anim s1, h1)) (\<lambda>(s2, h2).
       Inr (map_option g_position (carModel s2) =
              Some (vehicle_position_at (curve_position (progress s2 - 1 / 10000))) \<and>
            map_option g_position (carModel s2) \<noteq>
              Some (vehicle_position_at (curve_position (progress s2))) \<and>
            map_option g_basis (carModel s2) =
              Some (vehicle_basis_at (curve_tangent (progress s2)))))) = Inr True"
proof -
  let ?h0 = "\<lparr>raf_pending = [], raf_last = 0, calls = []\<rparr>"
  have t: "trunc INITIAL_VELOCITY = 0"
    by (simp add: trunc_def INITIAL_VELOCITY_def)
  obtain s1 h1 where a1: "animate (initialize c, ?h0) = Inr (s1, h1)"
    and p1: "progress s1 = progress (initialize c) + velocity (initialize c)
               - of_int (trunc (progress (initialize c) + velocity (initialize c)))"
    and v1: "MIN_VELOCITY \<le> velocity s1" "velocity s1 \<le> MAX_VELOCITY"
    and r1: "renderer s1" and q1: "raf_pending h1 = raf_pending ?h0 @ [Suc (raf_last ?h0)]"
    by (rule animate_total [of "initialize c" ?h0]) (simp_all add: initialize_def)
  have p1': "progress s1 = 2 / 10000"
    using p1 by (simp add: initialize_def t) (simp add: INITIAL_VELOCITY_def)
  let ?car = "\<lparr>g_position = Vector3 0 0 0,
               g_basis = (Vector3 1 0 0, Vector3 0 1 0, Vector3 0 0 1)\<rparr>"
  have l1: "renderer (carLoaded anim s1)" "carModel (carLoaded anim s1) = Some ?car"
    "progress (carLoaded anim s1) = 2 / 10000" "velocity (carLoaded anim s1) = velocity s1"
    using r1 p1' by (simp_all add: carLoaded_def)
  obtain s2 h2 where a2: "animate (carLoaded anim s1, h1\<lparr>raf_pending := []\<rparr>) = Inr (s2, h2)"
    and p2: "progress s2 = progress (carLoaded anim s1) + velocity (carLoaded anim s1)
               - of_int (trunc (progress (carLoaded anim s1) + velocity (carLoaded anim s1)))"
    and c2: "carModel s2 =
           Some (?car\<lparr>g_position := vehicle_position_at
                         (curve_position (max 0 (progress s2 - 1 / 10000))),
                      g_basis := vehicle_basis_at (curve_tangent (progress s2))\<rparr>)"
    using l1(1,2) by (rule animate_loaded)
  have range: "0 \<le> 2 / 10000 + velocity s1" "2 / 10000 + velocity s1 < 1"
    using v1 by (simp_all add: MIN_VELOCITY_def MAX_VELOCITY_def)
  have p2': "progress s2 = 2 / 10000 + velocity s1"
    using p2 trunc_unit_interval [OF range] by (simp add: l1)
  have bounds: "1 / 10000 \<le> progress s2" "progress s2 \<le> 1 / 100"
    using v1 by (simp_all add: p2' MIN_VELOCITY_def MAX_VELOCITY_def)
  have m: "max 0 (progress s2 - 1 / 10000) = progress s2 - 1 / 10000"
    using bounds(1) by simp
  have ne: "curve_position (progress s2 - 1 / 10000) \<noteq> curve_position (progress s2)"
    using position_lags [OF bounds] by auto
  have f: "frame (carLoaded anim s1, h1) = Inr (s2, h2)"
    using a2 q1 by (simp add: frame_def)
  show ?thesis
    using ne by (simp add: start_def a1 f bind_r_def c2 m vehicle_position_at_inject)
qed

section \<open>The order of a frame update\<close>

text \<open>
  Claim C2. \<open>updateCameraPosition\<close> first replaces the progress by the remainder
  of progress plus the old velocity by 1; it samples the tangent at that new progress;
  the new velocity is the old one plus the acceleration, then damped, then clamped.
  The remainder is the fractional part for a sum that is not negative (and minus the
  fractional part of the negated sum otherwise). From the state after \<open>initialize\<close> the
  first update leaves the progress at \<open>INITIAL_VELOCITY\<close>, which is its own remainder
  by 1.
\<close>

theorem frame_update_order:
  "bind_r (updateCameraPosition s) (\<lambda>s'. Inr (progress s')) =
     js_rem (progress s + velocity s) 1 \<and>
   bind_r (updateCameraPosition s) (\<lambda>s'. Inr (velocity s')) =
     bind_r (js_rem (progress s + velocity s) 1) (\<lambda>p.
       Inr (max MIN_VELOCITY (min MAX_VELOCITY
         ((velocity s + - vy (curve_tangent p) * GRAVITY_FACTOR * FIXED_DELTA_TIME)
            * VELOCITY_DAMPING)))) \<and>
   js_rem a 1 = Inr (if 0 \<le> a then frac a else - frac (- a)) \<and>
   bind_r (updateCameraPosition (initialize c)) (\<lambda>s'. Inr (progress s')) =
     Inr INITIAL_VELOCITY \<and>
   js_rem INITIAL_VELOCITY 1 = Inr INITIAL_VELOCITY"
proof -
  have "bind_r (updateCameraPosition s) (\<lambda>s'. Inr (progress s')) =
      js_rem (progress s + velocity s) 1"
    by (simp add: updateCameraPosition_eq Let_def bind_r_def js_rem_1)
  moreover have "bind_r (updateCameraPosition s) (\<lambda>s'. Inr (velocity s')) =
     bind_r (js_rem (progress s + velocity s) 1) (\<lambda>p.
       Inr (max MIN_VELOCITY (min MAX_VELOCITY
         ((velocity s + - vy (curve_tangent p) * GRAVITY_FACTOR * FIXED_DELTA_TIME)
            * VELOCITY_DAMPING))))"
    by (simp add: updateCameraPosition_eq Let_def bind_r_def js_rem_1)
  moreover have "js_rem a 1 = Inr (if 0 \<le> a then frac a else - frac (- a))"
    by (rule js_rem_1_cases)
  moreover have t: "trunc INITIAL_VELOCITY = 0"
    by (simp add: trunc_def INITIAL_VELOCITY_def)
  moreover have "js_rem INITIAL_VELOCITY 1 = Inr INITIAL_VELOCITY"
    by (simp add: js_rem_1 t)
  moreover have "bind_r (updateCameraPosition (initialize c)) (\<lambda>s'. Inr (progress s')) =
      Inr INITIAL_VELOCITY"
    by (simp add: updateCameraPosition_eq Let_def bind_r_def initialize_def t)
  ultimately show ?thesis
    by blast
qed

section \<open>Steering\<close>


section \<open>The tangent: unit length and the degenerate case\<close>

lemma length_v_sub_zero_iff: "length_v (sub a b) = 0 \<longleftrightarrow> a = b"
  by (cases a; cases b) (simp add: length_v_zero_iff sub_def)

text \<open>
  Claim C8. For every \<open>t\<close>, \<open>getTangentAt\<close> completes and the vector it returns holds
  the difference of the positions at \<open>min 1 (t + 0.0001)\<close> and \<open>max 0 (t - 0.0001)\<close>
  scaled to unit length: its length is 1, except where the two positions coincide,
  where it is the zero vector. Rounding is not modelled, so the length is 1 exactly.
\<close>

theorem tangent_unit_length:
  "(case getTangentAt t c of
      Inl e \<Rightarrow> False
    | Inr (tg, c') \<Rightarrow>
        deref c' tg =
          unit_v (sub (curve_position (min 1 (t + 1 / 10000)))
                      (curve_position (max 0 (t - 1 / 10000)))) \<and>
        length_v (deref c' tg) =
          (if curve_position (min 1 (t + 1 / 10000)) = curve_position (max 0 (t - 1 / 10000))
           then 0 else 1))"
  by (simp add: getTangentAt_eq deref_def curve_tangent_def length_v_unit length_v_sub_zero_iff)

theorem tangent_unit_length_witness:
  "(case getTangentAt 0 createParametricCurve of
      Inl e \<Rightarrow> False
    | Inr (tg, c') \<Rightarrow> length_v (deref c' tg) = 1)"
proof -
  have "vy (curve_position (1 / 10000 - 1 / 10000)) < vy (curve_position (1 / 10000))"
    by (rule position_lags) simp_all
  then have "curve_position (1 / 10000) \<noteq> curve_position 0"
    by auto
  then show ?thesis
    using tangent_unit_length [of 0 createParametricCurve]
    by (auto split: sum.splits prod.splits)
qed

lemma animate_cases: "animate w = Inl TypeError \<or> (\<exists>w'. animate w = Inr w')"
proof (cases w)
  case (Pair s h)
  show ?thesis
  proof (cases "renderer s")
    case True
    then show ?thesis
      using Pair by (auto elim: animate_total [of s h])
  next
    case False
    let ?s1 = "s\<lparr>animationId := Suc (raf_last h)\<rparr>"
    obtain s2 where s2: "updateCameraPosition ?s1 = Inr s2" and r2: "renderer s2 = renderer ?s1"
      by (rule updateCameraPosition_total [of ?s1])
    obtain s3 where s3: "updateCarPosition s2 = Inr s3" and r3: "renderer s3 = renderer s2"
      by (rule updateCarPosition_total [of s2])
    have "animate (s, h) = Inl TypeError"
      using False s2 s3 r2 r3
      by (simp add: animate_def requestAnimationFrame_def Let_def bind_r_def)
    then show ?thesis
      using Pair by simp
  qed
qed

lemma frame_cases: "frame w = Inl TypeError \<or> (\<exists>w'. frame w = Inr w')"
proof (cases w)
  case (Pair s h)
  then show ?thesis
    using animate_cases by (cases "raf_pending h") (simp_all add: frame_def)
qed

lemma frames_cases: "frames k w = Inl TypeError \<or> (\<exists>w'. frames k w = Inr w')"
proof (induction k arbitrary: w)
  case 0
  show ?case by simp
next
  case (Suc k)
  show ?case
  proof (cases "frame w")
    case (Inl e)
    then show ?thesis
      using frame_cases [of w] by (simp add: bind_r_def)
  next
    case (Inr w')
    then show ?thesis
      using Suc.IH [of w'] by (simp add: bind_r_def)
  qed
qed

lemma frames_total:
  assumes "renderer s"
  shows "\<exists>s' h'. frames k (s, h) = Inr (s', h') \<and> renderer s'"
  using assms
proof (induction k arbitrary: s h)
  case 0
  then show ?case by simp
next
  case (Suc k)
  show ?case
  proof (cases "raf_pending h")
    case Nil
    then have "frame (s, h) = Inr (s, h)"
      by (simp add: frame_def)
    then show ?thesis
      using Suc.IH [OF Suc.prems, of h] by (simp add: bind_r_def)
  next
    case (Cons n ns)
    then obtain s' h' where "frame (s, h) = Inr (s', h')" and "renderer s'"
      using Suc.prems by (auto elim: frame_total [of s h])
    then show ?thesis
      using Suc.IH [of s' h'] by (simp add: bind_r_def)
  qed
qed

lemma unit_v_zero: "unit_v (Vector3 0 0 0) = Vector3 0 0 0"
  by (simp add: unit_v_def length_v_def)

lemma curve_tangent_degenerate: "curve_tangent (- (1 / 10000)) = Vector3 0 0 0"
  by (simp add: curve_tangent_def sub_def unit_v_zero)

lemma vehicle_basis_at_zero:
  "vehicle_basis_at (Vector3 0 0 0) = (Vector3 0 0 0, Vector3 0 0 0, Vector3 0 0 0)"
  by (simp add: vehicle_basis_at_def Let_def unit_v_zero crossVectors_def)

text \<open>
  Claim C6. No run of frames, from any state, ends in a non-finite number: the only
  division of a frame is the one of \<open>normalize\<close>, which divides by 1 when the length
  is zero. A tangent that is exactly zero arises at the progress \<open>-0.0001\<close>, where
  both sampled positions are the position at 0. A frame that starts at the progress
  \<open>-0.0002\<close> with the velocity \<open>0.0001\<close> reaches this progress (the sum is exact);
  with the vehicle loaded it completes, with the camera, its target and the vehicle
  at finite points and the three basis vectors zero, and every later frame completes.
\<close>

theorem degenerate_tangent_finite:
  "frames k w \<noteq> Inl NotFinite \<and>
   normalize_v (Vector3 0 0 0) = Inr (Vector3 0 0 0) \<and>
   (case getTangentAt (- (1 / 10000)) c of
      Inl e \<Rightarrow> False
    | Inr (tg, c') \<Rightarrow> deref c' tg = Vector3 0 0 0) \<and>
   bind_r (animate ((carLoaded anim (initialize c))
                      \<lparr>progress := - (2 / 10000), velocity := 1 / 10000\<rparr>, h))
      (\<lambda>(s', h'). Inr (progress s', velocity s', camera s', carModel s')) =
     Inr (- (1 / 10000), 199 / 2000000,
          \<lparr>c_position = Vector3 (- 10) (97 / 2) 0, c_lookAt = Some (Vector3 0 (95 / 2) 0)\<rparr>,
          Some \<lparr>g_position = Vector3 0 (477 / 10) 0,
                g_basis = (Vector3 0 0 0, Vector3 0 0 0, Vector3 0 0 0)\<rparr>) \<and>
   \<not> isl (bind_r (animate ((carLoaded anim (initialize c))
                             \<lparr>progress := - (2 / 10000), velocity := 1 / 10000\<rparr>, h))
            (frames k))"
proof -
  let ?sd = "(carLoaded anim (initialize c))\<lparr>progress := - (2 / 10000), velocity := 1 / 10000\<rparr>"
  have 1: "frames k w \<noteq> Inl NotFinite"
    using frames_cases [of k w] by auto
  have 2: "normalize_v (Vector3 0 0 0) = Inr (Vector3 0 0 0)"
    by (simp add: normalize_v_unit unit_v_zero)
  have 3: "(case getTangentAt (- (1 / 10000)) c of
      Inl e \<Rightarrow> False
    | Inr (tg, c') \<Rightarrow> deref c' tg = Vector3 0 0 0)"
    by (simp add: getTangentAt_eq deref_def curve_tangent_degenerate)
  have t: "trunc (- (1 / 10000)) = 0"
    by (simp add: trunc_def ceiling_eq_iff)
  have 4: "bind_r (animate (?sd, h))
      (\<lambda>(s', h'). Inr (progress s', velocity s', camera s', carModel s')) =
     Inr (- (1 / 10000), 199 / 2000000,
          \<lparr>c_position = Vector3 (- 10) (97 / 2) 0, c_lookAt = Some (Vector3 0 (95 / 2) 0)\<rparr>,
          Some \<lparr>g_position = Vector3 0 (477 / 10) 0,
                g_basis = (Vector3 0 0 0, Vector3 0 0 0, Vector3 0 0 0)\<rparr>)"
    by (simp add: animate_def requestAnimationFrame_def Let_def bind_r_def
        updateCameraPosition_placement updateCarPosition_placement carLoaded_def initialize_def
        MIN_VELOCITY_def MAX_VELOCITY_def VELOCITY_DAMPING_def
        t curve_tangent_degenerate vehicle_basis_at_zero curve_position_0
        camera_position_at_def look_at_target_def vehicle_position_at_def add_def
        multiplyScalar_def)
  have r: "renderer ?sd"
    by (simp add: carLoaded_def initialize_def)
  obtain s' h' where a: "animate (?sd, h) = Inr (s', h')" and r': "renderer s'"
    using r by (rule animate_total [of ?sd h]) blast
  obtain s'' h'' where f: "frames k (s', h') = Inr (s'', h'')"
    using frames_total [OF r', of k h'] by blast
  have "bind_r (animate (?sd, h)) (frames k) = Inr (s'', h'')"
    unfolding a bind_r_def using f by simp
  then have 5: "\<not> isl (bind_r (animate (?sd, h)) (frames k))"
    by (simp only: sum.disc simp_thms)
  show ?thesis
    using 1 2 3 4 5 by blast
qed

section \<open>Teardown\<close>

lemma animate_host:
  assumes "animate (s, h) = Inr (s', h')"
  shows "animationId s' = Suc (raf_last h)"
    and "raf_pending h' = raf_pending h @ [Suc (raf_last h)]"
    and "renderer s' = renderer s" and "scene s' = scene s"
    and "geometries s' = geometries s" and "materials s' = materials s"
    and "set (calls h') \<subseteq> set (calls h) \<union> {MixerUpdate, Render}"
proof -
  let ?s1 = "s\<lparr>animationId := Suc (raf_last h)\<rparr>"
  obtain s2 where s2: "updateCameraPosition ?s1 = Inr s2"
    and r2: "renderer s2 = renderer ?s1" "scene s2 = scene ?s1" "animationId s2 = animationId ?s1"
      "geometries s2 = geometries ?s1" "materials s2 = materials ?s1"
    by (rule updateCameraPosition_total [of ?s1])
  obtain s3 where s3: "updateCarPosition s2 = Inr s3"
    and r3: "renderer s3 = renderer s2" "scene s3 = scene s2" "animationId s3 = animationId s2"
      "geometries s3 = geometries s2" "materials s3 = materials s2"
    by (rule updateCarPosition_total [of s2])
  have "renderer s3 \<and> s' = s3 \<and>
      h' = (if mixer s3
            then h\<lparr>raf_pending := raf_pending h @ [Suc (raf_last h)], raf_last := Suc (raf_last h),
                   calls := calls h @ [MixerUpdate, Render]\<rparr>
            else h\<lparr>raf_pending := raf_pending h @ [Suc (raf_last h)], raf_last := Suc (raf_last h),
                   calls := calls h @ [Render]\<rparr>)"
    using assms s2 s3
    by (simp add: animate_def requestAnimationFrame_def Let_def bind_r_def split: if_splits)
  then show "animationId s' = Suc (raf_last h)"
    and "raf_pending h' = raf_pending h @ [Suc (raf_last h)]"
    and "renderer s' = renderer s" and "scene s' = scene s"
    and "geometries s' = geometries s" and "materials s' = materials s"
    and "set (calls h') \<subseteq> set (calls h) \<union> {MixerUpdate, Render}"
    using r2 r3 by auto
qed

lemma reachable_invariant:
  assumes "reachable w"
  shows "raf_pending (snd w) = [animationId (fst w)] \<and> animationId (fst w) \<noteq> 0 \<and>
         renderer (fst w) \<and> scene (fst w) \<and>
         geometries (fst w) = [TrackGeometry, LiftersGeometry, ShadowGeometry, GroundGeometry] \<and>
         materials (fst w) = [TrackMaterial, LiftersMaterial, ShadowMaterial, GroundMaterial] \<and>
         set (calls (snd w)) \<subseteq> {MixerUpdate, Render}"
  using assms
proof (induction rule: reachable.induct)
  case (started c k w)
  obtain s' h' where w: "w = (s', h')" by (cases w)
  show ?case
    using animate_host [of "initialize c" "\<lparr>raf_pending = [], raf_last = k, calls = []\<rparr>" s' h']
      started
    by (simp add: w start_def initialize_def)
next
  case (framed w w')
  obtain s h where w: "w = (s, h)" by (cases w)
  obtain s' h' where w': "w' = (s', h')" by (cases w')
  have "animate (s, h\<lparr>raf_pending := []\<rparr>) = Inr (s', h')"
    using framed.hyps(2) framed.IH by (simp add: w w' frame_def)
  from animate_host [OF this] show ?case
    using framed.IH by (auto simp: w w')
next
  case (steered s h v)
  then show ?case by (simp add: setMouseX_def)
next
  case (loaded s h anim)
  then show ?case by (simp add: carLoaded_def)
qed

lemma dispose_service_idempotent: "fst (dispose (dispose w)) = fst (dispose w)"
  by (cases w) (simp add: dispose_def Let_def split: prod.splits if_splits)

lemma dispose_reachable:
  assumes "reachable w"
  shows "fst (dispose (dispose w)) = fst (dispose w) \<and>
         animationId (fst (dispose w)) = 0 \<and>
         geometries (fst (dispose w)) = [] \<and> materials (fst (dispose w)) = [] \<and>
         raf_pending (snd (dispose w)) = [] \<and>
         frame (dispose w) = Inr (dispose w) \<and>
         raf_pending (snd (dispose (dispose w))) = [] \<and>
         calls (snd (dispose w)) =
           calls (snd w) @
           [GeometryDispose TrackGeometry, GeometryDispose LiftersGeometry,
            GeometryDispose ShadowGeometry, GeometryDispose GroundGeometry,
            MaterialDispose TrackMaterial, MaterialDispose LiftersMaterial,
            MaterialDispose ShadowMaterial, MaterialDispose GroundMaterial,
            RendererDispose, ForceContextLoss, SceneClear] \<and>
         calls (snd (dispose (dispose w))) =
           calls (snd (dispose w)) @ [RendererDispose, ForceContextLoss, SceneClear]"
proof -
  obtain s h where w: "w = (s, h)" by (cases w)
  note inv = reachable_invariant [OF assms, unfolded w, simplified]
  show ?thesis
    using inv
    by (simp add: w dispose_def cancelAnimationFrame_def frame_def Let_def)
qed

lemma started_state:
  "reachable (projr (start (initialize createParametricCurve,
                            \<lparr>raf_pending = [], raf_last = 0, calls = []\<rparr>)))"
  "calls (snd (projr (start (initialize createParametricCurve,
                            \<lparr>raf_pending = [], raf_last = 0, calls = []\<rparr>)))) = [Render]"
proof -
  let ?h0 = "\<lparr>raf_pending = [], raf_last = 0, calls = []\<rparr>"
  let ?w = "projr (start (initialize createParametricCurve, ?h0))"
  have r0: "renderer (initialize createParametricCurve)"
    by (simp add: initialize_def)
  obtain s' h' where a: "animate (initialize createParametricCurve, ?h0) = Inr (s', h')"
    using r0 by (rule animate_total [of "initialize createParametricCurve" ?h0]) blast
  then have st: "start (initialize createParametricCurve, ?h0) = Inr ?w"
    by (simp add: start_def)
  then show "reachable ?w"
    by (rule reachable.started)
  have m: "\<not> mixer (initialize createParametricCurve)"
    "carModel (initialize createParametricCurve) = None"
    by (simp_all add: initialize_def)
  show "calls (snd ?w) = [Render]"
    using r0 m
    by (simp add: start_def animate_def requestAnimationFrame_def Let_def bind_r_def
        updateCameraPosition_placement updateCarPosition_None initialize_def)
qed

text \<open>
  Claim C9, as stated, fails. Take the state right after \<open>initialize\<close> and \<open>start\<close>.
  A second \<open>dispose\<close> does not leave the state the first left: \<open>renderer\<close> and \<open>scene\<close>
  stay assigned, so the renderer is disposed, its context dropped and the scene
  cleared a second time. Each of the three calls is made twice.
\<close>

theorem dispose_twice_differs:
  "dispose (dispose (projr (start (initialize createParametricCurve,
          \<lparr>raf_pending = [], raf_last = 0, calls = []\<rparr>)))) \<noteq> dispose (projr (start (initialize createParametricCurve,
          \<lparr>raf_pending = [], raf_last = 0, calls = []\<rparr>))) \<and>
   calls (snd (dispose (projr (start (initialize createParametricCurve,
          \<lparr>raf_pending = [], raf_last = 0, calls = []\<rparr>))))) =
     [Render,
      GeometryDispose TrackGeometry, GeometryDispose LiftersGeometry,
      GeometryDispose ShadowGeometry, GeometryDispose GroundGeometry,
      MaterialDispose TrackMaterial, MaterialDispose LiftersMaterial,
      MaterialDispose ShadowMaterial, MaterialDispose GroundMaterial,
      RendererDispose, ForceContextLoss, SceneClear] \<and>
   calls (snd (dispose (dispose (projr (start (initialize createParametricCurve,
          \<lparr>raf_pending = [], raf_last = 0, calls = []\<rparr>)))))) =
     [Render,
      GeometryDispose TrackGeometry, GeometryDispose LiftersGeometry,
      GeometryDispose ShadowGeometry, GeometryDispose GroundGeometry,
      MaterialDispose TrackMaterial, MaterialDispose LiftersMaterial,
      MaterialDispose ShadowMaterial, MaterialDispose GroundMaterial,
      RendererDispose, ForceContextLoss, SceneClear,
      RendererDispose, ForceContextLoss, SceneClear] \<and>
   count_list (calls (snd (dispose (dispose (projr (start (initialize createParametricCurve,
          \<lparr>raf_pending = [], raf_last = 0, calls = []\<rparr>))))))) RendererDispose = 2 \<and>
   count_list (calls (snd (dispose (dispose (projr (start (initialize createParametricCurve,
          \<lparr>raf_pending = [], raf_last = 0, calls = []\<rparr>))))))) ForceContextLoss = 2 \<and>
   count_list (calls (snd (dispose (dispose (projr (start (initialize createParametricCurve,
          \<lparr>raf_pending = [], raf_last = 0, calls = []\<rparr>))))))) SceneClear = 2"
proof -
  let ?w = "(projr (start (initialize createParametricCurve,
          \<lparr>raf_pending = [], raf_last = 0, calls = []\<rparr>)))"
  note d = dispose_reachable [OF started_state(1)]
  have c1: "calls (snd (dispose ?w)) =
     [Render,
      GeometryDispose TrackGeometry, GeometryDispose LiftersGeometry,
      GeometryDispose ShadowGeometry, GeometryDispose GroundGeometry,
      MaterialDispose TrackMaterial, MaterialDispose LiftersMaterial,
      MaterialDispose ShadowMaterial, MaterialDispose GroundMaterial,
      RendererDispose, ForceContextLoss, SceneClear]"
    using d by (simp add: started_state(2))
  have c2: "calls (snd (dispose (dispose ?w))) =
     [Render,
      GeometryDispose TrackGeometry, GeometryDispose LiftersGeometry,
      GeometryDispose ShadowGeometry, GeometryDispose GroundGeometry,
      MaterialDispose TrackMaterial, MaterialDispose LiftersMaterial,
      MaterialDispose ShadowMaterial, MaterialDispose GroundMaterial,
      RendererDispose, ForceContextLoss, SceneClear,
      RendererDispose, ForceContextLoss, SceneClear]"
    using d by (simp add: c1)
  have ne: "dispose (dispose ?w) \<noteq> dispose ?w"
  proof
    assume "dispose (dispose ?w) = dispose ?w"
    then have "calls (snd (dispose (dispose ?w))) = calls (snd (dispose ?w))"
      by simp
    then show False
      by (simp add: c1 c2)
  qed
  show ?thesis
    using ne c1 by (simp add: c2)
qed

text \<open>
  Claim C9, amended. In every state reachable after \<open>initialize\<close> and \<open>start\<close>, a
  second \<open>dispose\<close> leaves the fields of the service as the first left them: the
  animation id is 0 and the lists of geometries and materials are empty. After the
  first \<open>dispose\<close> no frame request is pending, so the host runs no further frame.
  The first call releases each geometry and each material once; the second releases
  none of them, and calls \<open>renderer.dispose\<close>, \<open>forceContextLoss\<close> and \<open>scene.clear\<close>
  again.
\<close>

theorem dispose_idempotent:
  assumes "reachable w"
  shows "fst (dispose (dispose w)) = fst (dispose w) \<and>
         animationId (fst (dispose w)) = 0 \<and>
         geometries (fst (dispose w)) = [] \<and> materials (fst (dispose w)) = [] \<and>
         raf_pending (snd (dispose w)) = [] \<and>
         frame (dispose w) = Inr (dispose w) \<and>
         raf_pending (snd (dispose (dispose w))) = [] \<and>
         calls (snd (dispose w)) =
           calls (snd w) @
           [GeometryDispose TrackGeometry, GeometryDispose LiftersGeometry,
            GeometryDispose ShadowGeometry, GeometryDispose GroundGeometry,
            MaterialDispose TrackMaterial, MaterialDispose LiftersMaterial,
            MaterialDispose ShadowMaterial, MaterialDispose GroundMaterial,
            RendererDispose, ForceContextLoss, SceneClear] \<and>
         calls (snd (dispose (dispose w))) =
           calls (snd (dispose w)) @ [RendererDispose, ForceContextLoss, SceneClear]"
  using assms by (rule dispose_reachable)

theorem dispose_idempotent_witness:
  "fst (dispose (dispose (projr (start (initialize createParametricCurve,
          \<lparr>raf_pending = [], raf_last = 0, calls = []\<rparr>))))) = fst (dispose (projr (start (initialize createParametricCurve,
          \<lparr>raf_pending = [], raf_last = 0, calls = []\<rparr>)))) \<and>
   animationId (fst (dispose (projr (start (initialize createParametricCurve,
          \<lparr>raf_pending = [], raf_last = 0, calls = []\<rparr>))))) = 0 \<and>
   geometries (fst (dispose (projr (start (initialize createParametricCurve,
          \<lparr>raf_pending = [], raf_last = 0, calls = []\<rparr>))))) = [] \<and> materials (fst (dispose (projr (start (initialize createParametricCurve,
          \<lparr>raf_pending = [], raf_last = 0, calls = []\<rparr>))))) = [] \<and>
   raf_pending (snd (dispose (projr (start (initialize createParametricCurve,
          \<lparr>raf_pending = [], raf_last = 0, calls = []\<rparr>))))) = [] \<and>
   frame (dispose (projr (start (initialize createParametricCurve,
          \<lparr>raf_pending = [], raf_last = 0, calls = []\<rparr>)))) = Inr (dispose (projr (start (initialize createParametricCurve,
          \<lparr>raf_pending = [], raf_last = 0, calls = []\<rparr>)))) \<and>
   calls (snd (dispose (dispose (projr (start (initialize createParametricCurve,
          \<lparr>raf_pending = [], raf_last = 0, calls = []\<rparr>)))))) =
     calls (snd (dispose (projr (start (initialize createParametricCurve,
          \<lparr>raf_pending = [], raf_last = 0, calls = []\<rparr>))))) @ [RendererDispose, ForceContextLoss, SceneClear]"
  using dispose_idempotent [OF started_state(1)] by simp

section \<open>The seam of the loop\<close>

lemma curve_position_1: "curve_position 1 = Vector3 0 (95 / 2) 0"
  by (simp add: curve_position_eq)

lemma curve_position_mirror:
  "curve_position (1 - u) =
     Vector3 (- vx (curve_position u))
             (- 20 * sin (8 * pi * u) + 10 * cos (16 * pi * u) + 75 / 2)
             (vz (curve_position u))"
proof -
  have 1: "sin (4 * pi * (1 - u)) = - sin (4 * pi * u)"
    by (simp add: right_diff_distrib sin_diff)
  have 2: "cos (6 * pi * (1 - u)) = cos (6 * pi * u)"
    by (simp add: right_diff_distrib cos_diff)
  have 3: "sin (8 * pi * (1 - u)) = - sin (8 * pi * u)"
    by (simp add: right_diff_distrib sin_diff)
  have 4: "cos (16 * pi * (1 - u)) = cos (16 * pi * u)"
    by (simp add: right_diff_distrib cos_diff)
  have 5: "sin (3 * pi * (1 - u)) = sin (3 * pi * u)"
    by (simp add: right_diff_distrib sin_diff)
  have 6: "cos (4 * pi * (1 - u)) = cos (4 * pi * u)"
    by (simp add: right_diff_distrib cos_diff)
  show ?thesis
    unfolding curve_position_eq 1 2 3 4 5 6 by simp
qed

lemma curve_position_shift:
  "curve_position (t + 1) =
     Vector3 (vx (curve_position t)) (vy (curve_position t)) (- vz (curve_position t))"
proof -
  have 1: "sin (4 * pi * (t + 1)) = sin (4 * pi * t)"
    by (simp add: distrib_left sin_add)
  have 2: "cos (6 * pi * (t + 1)) = cos (6 * pi * t)"
    by (simp add: distrib_left cos_add)
  have 3: "sin (8 * pi * (t + 1)) = sin (8 * pi * t)"
    by (simp add: distrib_left sin_add)
  have 4: "cos (16 * pi * (t + 1)) = cos (16 * pi * t)"
    by (simp add: distrib_left cos_add)
  have 5: "sin (3 * pi * (t + 1)) = - sin (3 * pi * t)"
    by (simp add: distrib_left sin_add)
  have 6: "cos (4 * pi * (t + 1)) = cos (4 * pi * t)"
    by (simp add: distrib_left cos_add)
  show ?thesis
    unfolding curve_position_eq 1 2 3 4 5 6 by simp
qed

lemma small_angle_bounds:
  fixes a :: real
  assumes "0 < a" and "a \<le> 1 / 1000"
  shows "0 < sin a" and "sin a \<le> 1 / 1000"
    and "299 / 100 * sin a \<le> sin (3 * a)"
    and "99 / 100 \<le> cos (4 * a)"
    and "0 \<le> sin (4 * a)" and "sin (4 * a) \<le> 4 * sin a"
    and "0 \<le> sin (8 * a)" and "sin (8 * a) \<le> 8 * sin a"
proof -
  have api: "a < pi / 2" "8 * a < pi / 2"
    using assms pi_ge_two by linarith+
  show s0: "0 < sin a"
    using assms(1) api by (intro sin_gt_zero2) linarith+
  have sa: "sin a \<le> a"
    using assms(1) by (intro sin_x_le_x) simp
  then show s1: "sin a \<le> 1 / 1000"
    using assms(2) by linarith
  have c0: "0 \<le> cos a" "cos a \<le> 1" "0 \<le> cos (2 * a)" "cos (2 * a) \<le> 1"
    "0 \<le> cos (4 * a)" "cos (4 * a) \<le> 1"
    using assms(1) api by (auto intro!: cos_ge_zero) 
  have ssq: "(sin a)\<^sup>2 \<le> 1 / 1000000"
  proof -
    have "(sin a)\<^sup>2 \<le> (1 / 1000)\<^sup>2"
      using s0 s1 by (intro power_mono) linarith+
    then show ?thesis by (simp add: power2_eq_square)
  qed
  have "sin (3 * a) = sin (2 * a + a)" by simp
  also have "\<dots> = sin (2 * a) * cos a + cos (2 * a) * sin a"
    by (rule sin_add)
  also have "\<dots> = 2 * sin a * (cos a)\<^sup>2 + (1 - 2 * (sin a)\<^sup>2) * sin a"
    by (simp add: sin_double cos_double_sin power2_eq_square)
  also have "\<dots> = 2 * sin a * (1 - (sin a)\<^sup>2) + (1 - 2 * (sin a)\<^sup>2) * sin a"
    by (simp only: cos_squared_eq)
  also have "\<dots> = sin a * (3 - 4 * (sin a)\<^sup>2)"
    by (simp add: algebra_simps power2_eq_square)
  finally have s3: "sin (3 * a) = sin a * (3 - 4 * (sin a)\<^sup>2)" .
  have "299 / 100 \<le> 3 - 4 * (sin a)\<^sup>2"
    using ssq by linarith
  then have "sin a * (299 / 100) \<le> sin a * (3 - 4 * (sin a)\<^sup>2)"
    using s0 by (intro mult_left_mono) linarith+
  then show "299 / 100 * sin a \<le> sin (3 * a)"
    unfolding s3 by (simp only: mult.commute [of "299 / 100" "sin a"])
  have s2a: "0 \<le> sin (2 * a)" "sin (2 * a) \<le> 2 * a"
    using assms(1) api by (auto intro!: sin_ge_zero sin_x_le_x) 
  have "(sin (2 * a))\<^sup>2 \<le> (2 / 1000)\<^sup>2"
    using s2a assms(2) by (intro power_mono) linarith+
  then have "(sin (2 * a))\<^sup>2 \<le> 4 / 1000000"
    by (simp add: power2_eq_square)
  moreover have "cos (4 * a) = 1 - 2 * (sin (2 * a))\<^sup>2"
    using cos_double_sin [of "2 * a"] by simp
  ultimately show "99 / 100 \<le> cos (4 * a)"
    by linarith
  have s4: "sin (4 * a) = 4 * sin a * (cos a * cos (2 * a))"
    using sin_double [of "2 * a"] sin_double [of a] by simp
  have cc: "0 \<le> cos a * cos (2 * a)" "cos a * cos (2 * a) \<le> 1"
    using c0 by (auto intro: mult_le_one)
  show s40: "0 \<le> sin (4 * a)"
    unfolding s4 using s0 cc(1) by (simp add: zero_le_mult_iff)
  have "4 * sin a * (cos a * cos (2 * a)) \<le> 4 * sin a * 1"
    using s0 cc(2) by (intro mult_left_mono) linarith+
  then show s41: "sin (4 * a) \<le> 4 * sin a"
    by (simp add: s4)
  have s8: "sin (8 * a) = 2 * sin (4 * a) * cos (4 * a)"
    using sin_double [of "4 * a"] by simp
  show "0 \<le> sin (8 * a)"
    unfolding s8 using s40 c0(5) by (simp add: zero_le_mult_iff)
  have "2 * sin (4 * a) * cos (4 * a) \<le> 2 * sin (4 * a) * 1"
    using s40 c0(6) by (intro mult_left_mono) linarith+
  then show "sin (8 * a) \<le> 8 * sin a"
    unfolding s8 using s41 by linarith
qed

lemma steep_z:
  fixes X Y Z s :: real
  assumes "0 < s" and "440 * s \<le> Z" and "\<bar>X\<bar> \<le> 600 * s" and "\<bar>Y\<bar> \<le> 162 * s"
  shows "1 / 2 < vz (unit_v (Vector3 X Y Z))"
    and "vz (unit_v (Vector3 X Y (- Z))) < - (1 / 2)"
proof -
  have Z0: "0 < Z" using assms(1,2) by linarith
  have "\<bar>X\<bar> * \<bar>X\<bar> \<le> (600 * s) * (600 * s)"
    using assms(3) by (intro mult_mono) simp_all
  then have X2: "X * X \<le> 360000 * (s * s)" by simp
  have "\<bar>Y\<bar> * \<bar>Y\<bar> \<le> (162 * s) * (162 * s)"
    using assms(4) by (intro mult_mono) simp_all
  then have Y2: "Y * Y \<le> 26244 * (s * s)" by simp
  have "(440 * s) * (440 * s) \<le> Z * Z"
    using assms(1,2) by (intro mult_mono) simp_all
  then have Z2: "193600 * (s * s) \<le> Z * Z" by simp
  have ss: "0 < s * s" using assms(1) by simp
  have lt: "X * X + Y * Y + Z * Z < (2 * Z)\<^sup>2"
    using X2 Y2 Z2 ss by (simp add: power2_eq_square)
  let ?L = "sqrt (X * X + Y * Y + Z * Z)"
  have L2: "?L < 2 * Z"
    using lt Z0 by (intro real_less_lsqrt) simp_all
  have "0 < X * X + Y * Y + Z * Z"
    using Z0 by (intro add_nonneg_pos) simp_all
  then have L0: "0 < ?L" by simp
  have half: "1 / 2 < Z / ?L"
    using L0 L2 by (simp add: field_simps)
  show "1 / 2 < vz (unit_v (Vector3 X Y Z))"
    using L0 half by (simp add: unit_v_def length_v_def multiplyScalar_def)
  show "vz (unit_v (Vector3 X Y (- Z))) < - (1 / 2)"
    using L0 half by (simp add: unit_v_def length_v_def multiplyScalar_def)
qed

lemma seam_tangents:
  assumes "0 < u" and "u \<le> 2 / 10000"
  shows "1 / 2 < vz (unit_v (sub (curve_position u) (curve_position 0)))"
    and "vz (unit_v (sub (curve_position 1) (curve_position (1 - u)))) < - (1 / 2)"
proof -
  define a where "a = pi * u"
  have a0: "0 < a" using assms(1) by (simp add: a_def)
  have "a \<le> 4 * (2 / 10000)"
    unfolding a_def using assms pi_less_4 by (intro mult_mono) simp_all
  then have a1: "a \<le> 1 / 1000" by simp
  note b = small_angle_bounds [OF a0 a1]
  define s where "s = sin a"
  define X where "X = 150 * (sin (4 * a) * cos (6 * a))"
  define Z where "Z = 150 * (sin (3 * a) * cos (4 * a))"
  define S where "S = sin (8 * a)"
  have args: "4 * pi * u = 4 * a" "6 * pi * u = 6 * a" "8 * pi * u = 8 * a"
    "16 * pi * u = 16 * a" "3 * pi * u = 3 * a"
    by (simp_all add: a_def)
  have c16: "cos (16 * a) = 1 - 2 * (S * S)"
    unfolding S_def using cos_double_sin [of "8 * a"] by (simp add: power2_eq_square)
  have pos: "curve_position u = Vector3 X (20 * S + 10 * (1 - 2 * (S * S)) + 75 / 2) Z"
    unfolding curve_position_eq args c16 X_def Z_def S_def by simp
  have s0: "0 < s" and s1: "s \<le> 1 / 1000"
    using b(1,2) by (simp_all add: s_def)
  have S0: "0 \<le> S" and S1: "S \<le> 8 * s"
    using b(7,8) by (simp_all add: S_def s_def)
  have "\<bar>sin (4 * a) * cos (6 * a)\<bar> \<le> (4 * s) * 1"
    unfolding abs_mult using b(5,6) by (intro mult_mono) (simp_all add: s_def)
  then have X: "\<bar>X\<bar> \<le> 600 * s"
    by (simp add: X_def abs_mult mult.commute)
  have "(299 / 100 * s) * (99 / 100) \<le> sin (3 * a) * cos (4 * a)"
    using b(3,4) s0 by (intro mult_mono) (simp_all add: s_def)
  then have Z: "440 * s \<le> Z"
    using s0 by (simp add: Z_def)
  have S2: "S \<le> 8 / 1000"
    using S1 s1 by linarith
  have SS: "0 \<le> S * S" "S * S \<le> S * (8 / 1000)"
    using S0 S2 by (simp, intro mult_left_mono)
  have Yp: "\<bar>20 * S - 20 * (S * S)\<bar> \<le> 162 * s"
    using SS S0 S1 s0 by linarith
  have Ym: "\<bar>20 * S + 20 * (S * S)\<bar> \<le> 162 * s"
    using SS S0 S1 s0 by linarith
  have dp: "sub (curve_position u) (curve_position 0) = Vector3 X (20 * S - 20 * (S * S)) Z"
    by (simp add: pos sub_def curve_position_0)
  have dm: "sub (curve_position 1) (curve_position (1 - u)) =
      Vector3 X (20 * S + 20 * (S * S)) (- Z)"
    by (simp add: curve_position_mirror curve_position_1 sub_def pos args c16 S_def)
  show "1 / 2 < vz (unit_v (sub (curve_position u) (curve_position 0)))"
    unfolding dp using s0 Z X Yp by (rule steep_z(1))
  show "vz (unit_v (sub (curve_position 1) (curve_position (1 - u)))) < - (1 / 2)"
    unfolding dm using s0 Z X Ym by (rule steep_z(2))
qed

text \<open>
  Claim C5. The positions at 0 and at 1 are equal, but the position is not periodic
  with period 1: a step of 1 negates its z coordinate (at \<open>1/6\<close> it is -75, one period
  later 75). The tangent has a kink at the seam: for every \<open>t\<close> from 0 to \<open>0.0001\<close>
  the z coordinate of the tangent is above \<open>1/2\<close>, for every \<open>t\<close> from \<open>0.9999\<close> to 1 it
  is below \<open>-1/2\<close>.
\<close>

theorem seam_kink:
  "curve_position 1 = curve_position 0 \<and>
   (case getTangentAt (max 0 (min (1 / 10000) r)) c of
      Inl e \<Rightarrow> False | Inr (tg, c') \<Rightarrow> 1 / 2 < vz (deref c' tg)) \<and>
   (case getTangentAt (max (9999 / 10000) (min 1 r)) c of
      Inl e \<Rightarrow> False | Inr (tg, c') \<Rightarrow> vz (deref c' tg) < - (1 / 2)) \<and>
   curve_position (t + 1) =
     Vector3 (vx (curve_position t)) (vy (curve_position t)) (- vz (curve_position t)) \<and>
   vz (curve_position (1 / 6)) = - 75 \<and> vz (curve_position (1 / 6 + 1)) = 75"
proof -
  have 1: "curve_position 1 = curve_position 0"
    by (simp add: curve_position_1 curve_position_0)
  define t0 where "t0 = max 0 (min (1 / 10000) r)"
  have t0: "0 \<le> t0" "t0 \<le> 1 / 10000"
    by (simp_all add: t0_def)
  have lo: "max 0 (t0 - 1 / 10000) = 0" "min 1 (t0 + 1 / 10000) = t0 + 1 / 10000"
    using t0 by simp_all
  have "1 / 2 < vz (unit_v (sub (curve_position (t0 + 1 / 10000)) (curve_position 0)))"
    using t0 by (intro seam_tangents(1)) simp_all
  then have 2: "1 / 2 < vz (curve_tangent t0)"
    by (simp add: curve_tangent_def lo)
  define t1 where "t1 = max (9999 / 10000) (min 1 r)"
  have t1: "9999 / 10000 \<le> t1" "t1 \<le> 1"
    by (simp_all add: t1_def)
  have hi: "max 0 (t1 - 1 / 10000) = 1 - (1 - t1 + 1 / 10000)" "min 1 (t1 + 1 / 10000) = 1"
    using t1 by simp_all
  have "vz (unit_v (sub (curve_position 1) (curve_position (1 - (1 - t1 + 1 / 10000))))) < - (1 / 2)"
    using t1 by (intro seam_tangents(2)) simp_all
  then have 3: "vz (curve_tangent t1) < - (1 / 2)"
    by (simp only: curve_tangent_def hi)
  have c: "cos (4 * pi * (1 / 6)) = - 1 / 2"
    using cos_120 by (simp add: algebra_simps)
  have s: "sin (3 * pi * (1 / 6)) = 1"
    by simp
  have 5: "vz (curve_position (1 / 6)) = - 75"
    unfolding curve_position_eq Vector3.sel c s by simp
  have 4: "curve_position (t + 1) =
     Vector3 (vx (curve_position t)) (vy (curve_position t)) (- vz (curve_position t))" for t
    by (rule curve_position_shift)
  have 6: "vz (curve_position (1 / 6 + 1)) = 75"
    by (simp only: 4 5 Vector3.sel)
  show ?thesis
    using 1 2 3 4 5 6
    by (simp add: getTangentAt_eq deref_def t0_def t1_def)
qed

end
